theory Spec2Isabelle
  imports Complex_Main "HOL-Library.Sublist"
begin

section \<open>Python values\<close>

text \<open>
  The analysis pipeline of \<^verbatim>\<open>api/index.py\<close> works on dynamically typed Python
  values.  A value is modelled by the constructors the code distinguishes with
  \<^verbatim>\<open>isinstance\<close>: \<^verbatim>\<open>dict\<close>, \<^verbatim>\<open>list\<close> and \<^verbatim>\<open>bytes\<close>; the scalars
  \<^verbatim>\<open>None\<close>, \<^verbatim>\<open>int\<close> and \<^verbatim>\<open>str\<close>; and \<open>PObj\<close> for an object of any other type
  (a float, a tuple, a rational of the image library, ...), given by what
  \<^verbatim>\<open>str()\<close>, \<^verbatim>\<open>bool()\<close> and \<^verbatim>\<open>len()\<close> do on it (\<open>None\<close> where the call raises).
  A \<^verbatim>\<open>str\<close> is the list of the bytes of its UTF-8 encoding; a \<^verbatim>\<open>dict\<close> is an
  association list in insertion order with \<^verbatim>\<open>str\<close> keys.  An exception is the text
  that names it.  Python floats are modelled as real numbers.
\<close>

type_synonym exn = string

datatype pyval =
    PNone
  | PInt int
  | PStr string
  | PBytes string
  | PObj "string option" bool "nat option"
  | PList "pyval list"
  | PDict "(string \<times> pyval) list"

type_synonym pydict = "(string \<times> pyval) list"

text \<open>\<^verbatim>\<open>d[k] = v\<close>: an existing key keeps its place, a new key goes last.\<close>

fun dict_set :: "'k \<Rightarrow> 'v \<Rightarrow> ('k \<times> 'v) list \<Rightarrow> ('k \<times> 'v) list" where
  "dict_set k v [] = [(k, v)]"
| "dict_set k v (p # d) = (if fst p = k then (k, v) # d else p # dict_set k v d)"

text \<open>\<^verbatim>\<open>d.get(k)\<close>, with \<^verbatim>\<open>None\<close> for a missing key.\<close>

definition dict_get :: "pydict \<Rightarrow> string \<Rightarrow> pyval" where
  "dict_get d k = (case map_of d k of None \<Rightarrow> PNone | Some v \<Rightarrow> v)"

text \<open>\<^verbatim>\<open>bool(v)\<close>, the truth value the \<^verbatim>\<open>if\<close> statements test.\<close>

fun truthy :: "pyval \<Rightarrow> bool" where
  "truthy PNone = False"
| "truthy (PInt i) = (i \<noteq> 0)"
| "truthy (PStr s) = (s \<noteq> [])"
| "truthy (PBytes b) = (b \<noteq> [])"
| "truthy (PObj s t n) = t"
| "truthy (PList xs) = (xs \<noteq> [])"
| "truthy (PDict kvs) = (kvs \<noteq> [])"

text \<open>\<^verbatim>\<open>len(v)\<close>; \<^verbatim>\<open>None\<close> and an \<^verbatim>\<open>int\<close> have no length.\<close>

fun py_len :: "pyval \<Rightarrow> exn + nat" where
  "py_len PNone = Inl ''TypeError''"
| "py_len (PInt i) = Inl ''TypeError''"
| "py_len (PStr s) = Inr (length s)"
| "py_len (PBytes b) = Inr (length b)"
| "py_len (PObj s t n) = (case n of None \<Rightarrow> Inl ''TypeError'' | Some k \<Rightarrow> Inr k)"
| "py_len (PList xs) = Inr (length xs)"
| "py_len (PDict kvs) = Inr (length kvs)"

subsection \<open>Strings\<close>

text \<open>
  \<^verbatim>\<open>str.lower()\<close> on the ASCII letters; every other byte is left as it is (the
  case mappings of Unicode outside ASCII are not modelled).
\<close>

definition lower_char :: "char \<Rightarrow> char" where
  "lower_char c =
     (case map_of (zip ''ABCDEFGHIJKLMNOPQRSTUVWXYZ'' ''abcdefghijklmnopqrstuvwxyz'') c of
        Some d \<Rightarrow> d
      | None \<Rightarrow> c)"

definition lower :: "string \<Rightarrow> string" where
  "lower s = map lower_char s"

text \<open>\<^verbatim>\<open>str(n)\<close> of an integer: its decimal digits.\<close>

function str_nat :: "nat \<Rightarrow> string" where
  "str_nat n =
     (if n < 10 then [''0123456789'' ! n]
      else str_nat (n div 10) @ [''0123456789'' ! (n mod 10)])"
  by pat_completeness auto
termination
  by (relation "measure id") auto

declare str_nat.simps [simp del]

definition str_int :: "int \<Rightarrow> string" where
  "str_int i = (if i < 0 then CHR ''-'' # str_nat (nat (- i)) else str_nat (nat i))"

text \<open>
  \<^verbatim>\<open>str(b)\<close> of a \<^verbatim>\<open>bytes\<close> object is its literal: \<^verbatim>\<open>b'...'\<close>, in double quotes
  when the bytes hold a single quote and no double quote, with the quote and the
  backslash escaped, tab, newline and carriage return by letter and every byte
  outside the printable ASCII range as \<^verbatim>\<open>\xhh\<close>.
\<close>

definition bytes_quote :: "string \<Rightarrow> char" where
  "bytes_quote b =
     (if CHR 0x27 \<in> set b \<and> CHR 0x22 \<notin> set b then CHR 0x22 else CHR 0x27)"

definition byte_repr :: "char \<Rightarrow> char \<Rightarrow> string" where
  "byte_repr q c =
     (let n = (of_char c :: nat) in
      if c = q \<or> c = CHR 0x5C then [CHR 0x5C, c]
      else if n = 9 then [CHR 0x5C, CHR ''t'']
      else if n = 10 then [CHR 0x5C, CHR ''n'']
      else if n = 13 then [CHR 0x5C, CHR ''r'']
      else if n < 32 \<or> 127 \<le> n then
        [CHR 0x5C, CHR ''x'', ''0123456789abcdef'' ! (n div 16), ''0123456789abcdef'' ! (n mod 16)]
      else [c])"

definition bytes_repr :: "string \<Rightarrow> string" where
  "bytes_repr b =
     (let q = bytes_quote b in [CHR ''b'', q] @ concat (map (byte_repr q) b) @ [q])"

section \<open>Images and the libraries\<close>

text \<open>
  A decoded image (\<^verbatim>\<open>PIL.Image.Image\<close>): the attributes the code reads, and the
  pixel grid, \<open>img_pixels img x y k\<close> being band \<open>k\<close> of the pixel in column \<open>x\<close> and
  row \<open>y\<close>.  \<open>img_size\<close> is (width, height).
\<close>

record image =
  img_format :: "string option"
  img_mode :: string
  img_size :: "nat \<times> nat"
  img_info :: pydict
  img_pixels :: "nat \<Rightarrow> nat \<Rightarrow> nat \<Rightarrow> nat"

text \<open>
  A two-dimensional \<^verbatim>\<open>numpy\<close> array of floats: its shape (rows, columns) and its
  entries.
\<close>

record ndarray =
  shape :: "nat \<times> nat"
  px :: "nat \<Rightarrow> nat \<Rightarrow> real"

text \<open>
  What \<^verbatim>\<open>piexif.load\<close> returns: a dict from IFD names to IFDs, an IFD being a dict
  from tag ids to values; the entry \<^verbatim>\<open>"thumbnail"\<close> is no dict.
\<close>

datatype ifd = IfdDict "(int \<times> pyval) list" | IfdOther pyval

text \<open>
  The library functions the code calls (Pillow, piexif, numpy, scikit-image) are
  parameters of the model.  A call that can raise returns a sum, \<open>Inl\<close> the
  exception.  \<open>piexif_TAGS ifd_name tag_id\<close> is
  \<^verbatim>\<open>piexif.TAGS[ifd_name][tag_id]["name"]\<close>, \<open>None\<close> where the lookup raises.
\<close>

record externals =
  image_open :: "string \<Rightarrow> exn + image"
  exif_transpose :: "image \<Rightarrow> exn + image"
  img_resize :: "image \<Rightarrow> nat \<times> nat \<Rightarrow> exn + image"
  img_convert :: "image \<Rightarrow> string \<Rightarrow> exn + image"
  img_tobytes :: "image \<Rightarrow> exn + string"
  piexif_load :: "pyval \<Rightarrow> exn + (string \<times> ifd) list"
  piexif_TAGS :: "string \<Rightarrow> int \<Rightarrow> string option"
  utf8_decode_ignore :: "string \<Rightarrow> exn + string"
  laplace :: "ndarray \<Rightarrow> ndarray"
  np_std :: "ndarray \<Rightarrow> real"
  shannon_entropy :: "ndarray \<Rightarrow> real"

section \<open>Image utilities\<close>

text \<open>\<^verbatim>\<open>_load_image_from_bytes\<close> (lines 20-23).\<close>

definition load_image_from_bytes :: "externals \<Rightarrow> string \<Rightarrow> exn + image" where
  "load_image_from_bytes E data =
     (case image_open E data of
        Inl e \<Rightarrow> Inl e
      | Inr img \<Rightarrow> exif_transpose E img)"

text \<open>
  \<^verbatim>\<open>_pil_to_nd_gray\<close> (lines 26-32): the luma of the RGB bands, or the single band,
  scaled to the unit interval.
\<close>

definition pil_to_nd_gray :: "externals \<Rightarrow> image \<Rightarrow> exn + ndarray" where
  "pil_to_nd_gray E img =
     (if img_mode img \<noteq> ''L'' \<and> img_mode img \<noteq> ''LA'' then
        (case img_convert E img ''RGB'' of
           Inl e \<Rightarrow> Inl e
         | Inr rgb \<Rightarrow>
             Inr \<lparr>shape = (snd (img_size rgb), fst (img_size rgb)),
                  px = (\<lambda>r c. 0.299 * (real (img_pixels rgb c r 0) / 255)
                             + 0.587 * (real (img_pixels rgb c r 1) / 255)
                             + 0.114 * (real (img_pixels rgb c r 2) / 255))\<rparr>)
      else
        (case img_convert E img ''L'' of
           Inl e \<Rightarrow> Inl e
         | Inr l \<Rightarrow>
             Inr \<lparr>shape = (snd (img_size l), fst (img_size l)),
                  px = (\<lambda>r c. real (img_pixels l c r 0) / 255)\<rparr>))"

text \<open>\<^verbatim>\<open>round(x)\<close>: to the nearest integer, a tie to the even one.\<close>

definition py_round :: "real \<Rightarrow> int" where
  "py_round x =
     (let f = \<lfloor>x\<rfloor>; d = x - of_int f in
      if d < 1 / 2 then f
      else if 1 / 2 < d then f + 1
      else if even f then f else f + 1)"

text \<open>
  \<^verbatim>\<open>_resize_for_metrics\<close> (lines 35-41).  The division raises when both sides
  are 0.
\<close>

definition resize_for_metrics :: "externals \<Rightarrow> image \<Rightarrow> nat \<Rightarrow> exn + image" where
  "resize_for_metrics E img max_side =
     (let (w, h) = img_size img in
      if max w h = 0 then Inl ''ZeroDivisionError''
      else
        let scale = min 1 (real max_side / real (max w h)) in
        if scale < 1 then
          img_resize E img (nat (py_round (real w * scale)), nat (py_round (real h * scale)))
        else Inr img)"

section \<open>Metadata extraction\<close>

text \<open>
  The loop over \<^verbatim>\<open>img.info\<close> (lines 53-62): a \<^verbatim>\<open>bytes\<close> value is replaced by
  its length.
\<close>

definition pil_info_of :: "pydict \<Rightarrow> pydict" where
  "pil_info_of info =
     fold (\<lambda>(k, v) acc.
            dict_set k
              (case v of
                 PBytes b \<Rightarrow> PDict [(''type'', PStr ''bytes''), (''length'', PInt (int (length b)))]
               | _ \<Rightarrow> v) acc)
          info []"

text \<open>The name of a tag, or its id as a string (lines 83-86).\<close>

definition tag_name_of :: "externals \<Rightarrow> string \<Rightarrow> int \<Rightarrow> string" where
  "tag_name_of E ifd_name tag_id =
     (case piexif_TAGS E ifd_name tag_id of Some n \<Rightarrow> n | None \<Rightarrow> str_int tag_id)"

text \<open>The value stored for a tag (lines 87-97).\<close>

definition readable_value :: "externals \<Rightarrow> pyval \<Rightarrow> pyval" where
  "readable_value E v =
     (case v of
        PBytes b \<Rightarrow>
          (case utf8_decode_ignore E b of
             Inr s \<Rightarrow> PStr s
           | Inl e \<Rightarrow> PStr (''<bytes:'' @ str_nat (length b) @ ''>''))
      | _ \<Rightarrow> v)"

definition readable_ifd_of :: "externals \<Rightarrow> string \<Rightarrow> (int \<times> pyval) list \<Rightarrow> pydict" where
  "readable_ifd_of E ifd_name d =
     fold (\<lambda>(tag_id, v) acc. dict_set (tag_name_of E ifd_name tag_id) (readable_value E v) acc)
          d []"

text \<open>The loop over the loaded IFDs (lines 79-99).\<close>

definition exif_data_of :: "externals \<Rightarrow> (string \<times> ifd) list \<Rightarrow> pydict" where
  "exif_data_of E exif_dict =
     fold (\<lambda>(ifd_name, i) acc.
            (case i of
               IfdDict d \<Rightarrow>
                 (let readable_ifd = readable_ifd_of E ifd_name d in
                  if readable_ifd \<noteq> [] then dict_set ifd_name (PDict readable_ifd) acc else acc)
             | IfdOther v \<Rightarrow> acc))
          exif_dict []"

text \<open>
  The \<^verbatim>\<open>try\<close> block of lines 72-101: the EXIF bytes of \<^verbatim>\<open>img.info\<close>, or else the
  raw image bytes, are handed to \<^verbatim>\<open>piexif.load\<close>; whatever raises leaves
  \<^verbatim>\<open>exif_data\<close> empty.
\<close>

definition extract_exif :: "externals \<Rightarrow> image \<Rightarrow> pydict" where
  "extract_exif E img =
     (let exif_bytes = dict_get (img_info img) ''exif'';
          loaded =
            (if truthy exif_bytes then piexif_load E exif_bytes
             else
               (case img_tobytes E img of
                  Inl e \<Rightarrow> Inl e
                | Inr b \<Rightarrow> piexif_load E (PBytes b)))
      in case loaded of
           Inl e \<Rightarrow> []
         | Inr exif_dict \<Rightarrow> exif_data_of E exif_dict)"

text \<open>
  \<^verbatim>\<open>extract_metadata\<close> (lines 45-106).  \<^verbatim>\<open>len(icc)\<close> stands outside every
  \<^verbatim>\<open>try\<close>.
\<close>

definition extract_metadata :: "externals \<Rightarrow> image \<Rightarrow> exn + pydict" where
  "extract_metadata E img =
     (let meta = [(''format'', (case img_format img of None \<Rightarrow> PNone | Some f \<Rightarrow> PStr f)),
                  (''mode'', PStr (img_mode img)),
                  (''size'', PDict [(''width'', PInt (int (fst (img_size img)))),
                                    (''height'', PInt (int (snd (img_size img))))])];
          info = pil_info_of (img_info img);
          meta = (if info \<noteq> [] then dict_set ''pil_info'' (PDict info) meta else meta);
          icc = dict_get (img_info img) ''icc_profile''
      in case (if truthy icc then
                 (case py_len icc of
                    Inl e \<Rightarrow> Inl e
                  | Inr n \<Rightarrow> Inr (dict_set ''icc_profile_length'' (PInt (int n)) meta))
               else Inr meta) of
           Inl e \<Rightarrow> Inl e
         | Inr meta \<Rightarrow>
             (let exif_data = extract_exif E img in
              Inr (if exif_data \<noteq> [] then dict_set ''exif'' (PDict exif_data) meta else meta)))"

section \<open>Generator tag detection\<close>

definition GENERATOR_KEYWORDS :: "string list" where
  "GENERATOR_KEYWORDS =
     [''stable diffusion'', ''stability.ai'', ''automatic1111'', ''invokeai'', ''comfyui'',
      ''midjourney'', ''dall-e'', ''dall'' @ [CHR 0xC2, CHR 0xB7] @ ''e'', ''openai'',
      ''novelai'', ''runway'', ''firefly'', ''leonardo'', ''sdxl'', ''genai'',
      ''ai generated'', ''clipdrop'', ''ideogram'', ''flux.1'']"

text \<open>
  The closure \<^verbatim>\<open>collect\<close> (lines 120-132) appends to the list \<^verbatim>\<open>texts\<close> of its
  enclosing call; the model passes the list through.  A value whose \<^verbatim>\<open>str()\<close>
  raises is skipped.
\<close>

fun collect :: "pyval \<Rightarrow> string list \<Rightarrow> string list" where
  "collect (PDict kvs) texts = fold (\<lambda>(k, v) t. collect v (t @ [lower k])) kvs texts"
| "collect (PList xs) texts = fold collect xs texts"
| "collect PNone texts = texts @ [lower ''None'']"
| "collect (PInt i) texts = texts @ [lower (str_int i)]"
| "collect (PStr s) texts = texts @ [lower s]"
| "collect (PBytes b) texts = texts @ [lower (bytes_repr b)]"
| "collect (PObj s t n) texts = (case s of None \<Rightarrow> texts | Some r \<Rightarrow> texts @ [lower r])"

text \<open>
  \<^verbatim>\<open>detect_generator_reasons\<close> (lines 117-140); \<^verbatim>\<open>kw in t\<close> on strings is
  \<^const>\<open>sublist\<close>.
\<close>

definition detect_generator_reasons :: "pydict \<Rightarrow> string list" where
  "detect_generator_reasons metadata =
     (let texts = collect (PDict metadata) [] in
      fold (\<lambda>kw reasons.
             if list_ex (\<lambda>t. sublist kw t) texts
             then reasons @ [''Generator tag detected: '' @ kw]
             else reasons)
           GENERATOR_KEYWORDS [])"

text \<open>
  The strings a value holds: \<open>mentions v s\<close> when \<open>s\<close> is a key of a dict, or the
  \<^verbatim>\<open>str()\<close> of a value that is neither a dict nor a list, anywhere inside \<open>v\<close>.
\<close>

inductive mentions :: "pyval \<Rightarrow> string \<Rightarrow> bool" where
  none: "mentions PNone ''None''"
| int: "mentions (PInt i) (str_int i)"
| str: "mentions (PStr s) s"
| bytes: "mentions (PBytes b) (bytes_repr b)"
| obj: "mentions (PObj (Some r) t n) r"
| key: "(k, v) \<in> set kvs \<Longrightarrow> mentions (PDict kvs) k"
| val: "(k, v) \<in> set kvs \<Longrightarrow> mentions v s \<Longrightarrow> mentions (PDict kvs) s"
| item: "v \<in> set xs \<Longrightarrow> mentions v s \<Longrightarrow> mentions (PList xs) s"

section \<open>Heuristic metrics\<close>

text \<open>\<^verbatim>\<open>range(start, stop, step)\<close> for a positive step.\<close>

definition py_range :: "nat \<Rightarrow> nat \<Rightarrow> nat \<Rightarrow> nat list" where
  "py_range start stop step = filter (\<lambda>i. (i - start) mod step = 0) [start..<stop]"

definition np_mean :: "real list \<Rightarrow> real" where
  "np_mean xs = sum_list xs / real (length xs)"

definition np_clip :: "real \<Rightarrow> real \<Rightarrow> real \<Rightarrow> real" where
  "np_clip x lo hi = min (max x lo) hi"

text \<open>\<^verbatim>\<open>compute_blockiness\<close> (lines 144-163).\<close>

definition compute_blockiness :: "ndarray \<Rightarrow> real" where
  "compute_blockiness gray =
     (let (H, W) = shape gray in
      if H < 16 \<or> W < 16 then 0
      else
        let v_edges =
              map (\<lambda>c. np_mean (map (\<lambda>r. \<bar>px gray r c - px gray r (c - 1)\<bar>) [0..<H]))
                  (filter (\<lambda>c. c < W) (py_range 8 W 8));
            h_edges =
              map (\<lambda>r. np_mean (map (\<lambda>c. \<bar>px gray r c - px gray (r - 1) c\<bar>) [0..<W]))
                  (filter (\<lambda>r. r < H) (py_range 8 H 8));
            all_edges = v_edges @ h_edges
        in if all_edges = [] then 0 else np_clip (np_mean all_edges) 0 1)"

text \<open>\<^verbatim>\<open>compute_noise\<close> (lines 166-171) and \<^verbatim>\<open>compute_entropy\<close> (lines 174-178).\<close>

definition compute_noise :: "externals \<Rightarrow> ndarray \<Rightarrow> real" where
  "compute_noise E gray = np_clip (np_std E (laplace E gray) * 2) 0 1"

definition compute_entropy :: "externals \<Rightarrow> ndarray \<Rightarrow> real" where
  "compute_entropy E gray = np_clip (shannon_entropy E gray / 8) 0 1"

section \<open>Analysis\<close>

record metric_set =
  blockiness :: real
  noise_estimate :: real
  hist_entropy :: real

record analysis_result =
  score :: real
  label :: string
  reasons :: "string list"
  metadata :: pydict
  metrics :: metric_set

text \<open>\<^verbatim>\<open>bool(metadata.get("exif"))\<close> (line 205).\<close>

definition has_exif_of :: "pydict \<Rightarrow> bool" where
  "has_exif_of md = truthy (dict_get md ''exif'')"

text \<open>The reasons, appended in the order of lines 199-215.\<close>

definition build_reasons ::
    "string list \<Rightarrow> bool \<Rightarrow> real \<Rightarrow> real \<Rightarrow> real \<Rightarrow> string option \<Rightarrow> string list" where
  "build_reasons gen_reasons has_exif entropy noise blk fmt =
     (let reasons = [] @ gen_reasons;
          reasons = (if \<not> has_exif then reasons @ [''No EXIF metadata present''] else reasons);
          reasons = (if entropy < 0.35 then reasons @ [''Low histogram entropy''] else reasons);
          reasons = (if noise < 0.20 then reasons @ [''Low high-frequency noise''] else reasons);
          reasons = (if blk < 0.05 \<and> fmt \<noteq> Some ''PNG''
                     then reasons @ [''Very low JPEG blockiness''] else reasons)
      in reasons)"

text \<open>The score before it is clipped (lines 218-225).\<close>

definition score_sum :: "string list \<Rightarrow> bool \<Rightarrow> real \<Rightarrow> real \<Rightarrow> real \<Rightarrow> real" where
  "score_sum gen_reasons has_exif entropy noise blk =
     (let score = 0;
          score = (if gen_reasons \<noteq> [] then score + 0.6 else score);
          score = (if \<not> has_exif then score + 0.15 else score);
          score = score + (0.35 - min entropy 0.35) / 0.35 * 0.1;
          score = score + (0.20 - min noise 0.20) / 0.20 * 0.1;
          score = score + (0.05 - min blk 0.05) / 0.05 * 0.05
      in score)"

text \<open>The label of a score (lines 228-233).\<close>

definition label_for :: "real \<Rightarrow> string" where
  "label_for s =
     (if s \<ge> 0.75 then ''Likely AI-generated''
      else if s \<ge> 0.45 then ''Possibly AI-generated''
      else ''Likely human-captured'')"

text \<open>
  \<^verbatim>\<open>analyze_image\<close> (lines 181-241).  No call of it stands in a \<^verbatim>\<open>try\<close>: an
  exception of the resize, of the conversion or of \<^verbatim>\<open>extract_metadata\<close> leaves
  the function.
\<close>

definition analyze_image :: "externals \<Rightarrow> image \<Rightarrow> exn + analysis_result" where
  "analyze_image E img =
     (case resize_for_metrics E img 1024 of
        Inl e \<Rightarrow> Inl e
      | Inr img_small \<Rightarrow>
     (case pil_to_nd_gray E img_small of
        Inl e \<Rightarrow> Inl e
      | Inr gray \<Rightarrow>
     (case extract_metadata E img of
        Inl e \<Rightarrow> Inl e
      | Inr md \<Rightarrow>
          (let blk = compute_blockiness gray;
               noise = compute_noise E gray;
               entropy = compute_entropy E gray;
               gen_reasons = detect_generator_reasons md;
               has_exif = has_exif_of md;
               rs = build_reasons gen_reasons has_exif entropy noise blk (img_format img);
               s = np_clip (score_sum gen_reasons has_exif entropy noise blk) 0 1
           in Inr \<lparr>score = s, label = label_for s, reasons = rs, metadata = md,
                    metrics = \<lparr>blockiness = blk, noise_estimate = noise,
                               hist_entropy = entropy\<rparr>\<rparr>))))"

text \<open>
  The entry point, as both routes run it (lines 259-265 and 285-291): an exception
  of the loader is answered as an invalid image; \<^verbatim>\<open>analyze_image\<close> is called
  outside the \<^verbatim>\<open>try\<close>, so what it raises is not caught.
\<close>

datatype failure = InvalidImage exn | Uncaught exn

definition analyze :: "externals \<Rightarrow> string \<Rightarrow> failure + analysis_result" where
  "analyze E data =
     (case load_image_from_bytes E data of
        Inl e \<Rightarrow> Inl (InvalidImage e)
      | Inr img \<Rightarrow>
          (case analyze_image E img of
             Inl e \<Rightarrow> Inl (Uncaught e)
           | Inr r \<Rightarrow> Inr r))"

section \<open>A sample run\<close>

text \<open>
  Two images and stand-ins for the libraries, to run the definitions on: a 2 x 2
  PNG whose text chunk names its generator, and an image of 1 x 3000 pixels.  The
  stand-in for \<^verbatim>\<open>resize\<close> rejects a side of 0, the stand-in for \<^verbatim>\<open>piexif.load\<close>
  finds no EXIF block.
\<close>

definition sample_image :: image where
  "sample_image =
     \<lparr>img_format = Some ''PNG'', img_mode = ''RGB'', img_size = (2, 2),
      img_info = [(''parameters'', PStr ''Steps: 20, Model: MidJourney v5''),
                  (''dpi'', PList [PInt 72, PInt 72])],
      img_pixels = (\<lambda>x y k. 128)\<rparr>"

definition thin_image :: image where
  "thin_image =
     \<lparr>img_format = None, img_mode = ''L'', img_size = (1, 3000), img_info = [],
      img_pixels = (\<lambda>x y k. 0)\<rparr>"

definition sample_externals :: externals where
  "sample_externals =
     \<lparr>image_open = (\<lambda>data. if data = [] then Inl ''UnidentifiedImageError''
                             else if data = ''thin'' then Inr thin_image
                             else Inr sample_image),
      exif_transpose = Inr,
      img_resize = (\<lambda>img sz. if fst sz < 1 \<or> snd sz < 1
                               then Inl ''ValueError: height and width must be > 0''
                               else Inr (img\<lparr>img_size := sz\<rparr>)),
      img_convert = (\<lambda>img m. Inr (img\<lparr>img_mode := m\<rparr>)),
      img_tobytes = (\<lambda>img. Inr []),
      piexif_load = (\<lambda>v. Inl ''InvalidImageDataError''),
      piexif_TAGS = (\<lambda>n t. None),
      utf8_decode_ignore = Inr,
      laplace = (\<lambda>g. g),
      np_std = (\<lambda>g. 1 / 4),
      shannon_entropy = (\<lambda>g. 6)\<rparr>"

definition sample_metadata :: pydict where
  "sample_metadata =
     [(''format'', PStr ''PNG''), (''mode'', PStr ''RGB''),
      (''size'', PDict [(''width'', PInt 2), (''height'', PInt 2)]),
      (''pil_info'', PDict [(''parameters'', PStr ''Steps: 20, Model: MidJourney v5''),
                            (''dpi'', PList [PInt 72, PInt 72])])]"

definition sample_result :: analysis_result where
  "sample_result =
     \<lparr>score = 4 / 5, label = ''Likely AI-generated'',
      reasons = [''Generator tag detected: midjourney'', ''No EXIF metadata present''],
      metadata = sample_metadata,
      metrics = \<lparr>blockiness = 0, noise_estimate = 1 / 2, hist_entropy = 3 / 4\<rparr>\<rparr>"

text \<open>
  The same libraries with an \<^verbatim>\<open>exif_transpose\<close> that returns a copy of the image, and
  a copy carries no format; the metadata and the result of the PNG under them.
\<close>

definition copying_externals :: externals where
  "copying_externals =
     sample_externals\<lparr>exif_transpose := (\<lambda>img. Inr (img\<lparr>img_format := None\<rparr>))\<rparr>"

definition copied_metadata :: pydict where
  "copied_metadata =
     [(''format'', PNone), (''mode'', PStr ''RGB''),
      (''size'', PDict [(''width'', PInt 2), (''height'', PInt 2)]),
      (''pil_info'', PDict [(''parameters'', PStr ''Steps: 20, Model: MidJourney v5''),
                            (''dpi'', PList [PInt 72, PInt 72])])]"

definition copied_result :: analysis_result where
  "copied_result =
     \<lparr>score = 4 / 5, label = ''Likely AI-generated'',
      reasons = [''Generator tag detected: midjourney'', ''No EXIF metadata present'',
                 ''Very low JPEG blockiness''],
      metadata = copied_metadata,
      metrics = \<lparr>blockiness = 0, noise_estimate = 1 / 2, hist_entropy = 3 / 4\<rparr>\<rparr>"

text \<open>A metadata record that names two generators, one of them in a nested key.\<close>

definition nested_metadata :: pydict where
  "nested_metadata =
     [(''Software'', PStr ''OpenAI image tool''),
      (''pil_info'', PDict [(''Made with MIDJOURNEY'', PList [PInt 1, PNone])])]"

section \<open>The flattening of the metadata\<close>

lemma fold_emit:
  assumes "\<And>x t. x \<in> set xs \<Longrightarrow> f x t = t @ f x []"
  shows "fold f xs t = t @ concat (map (\<lambda>x. f x []) xs)"
  using assms
proof (induction xs arbitrary: t)
  case Nil
  show ?case by simp
next
  case (Cons x xs)
  have "fold f (x # xs) t = fold f xs (f x t)" by simp
  also have "\<dots> = f x t @ concat (map (\<lambda>x. f x []) xs)"
    by (rule Cons.IH) (rule Cons.prems, simp)
  also have "f x t = t @ f x []"
    by (rule Cons.prems) simp
  finally show ?case by simp
qed

text \<open>What \<open>collect\<close> appends does not depend on what \<open>texts\<close> already holds.\<close>

lemma collect_append: "collect v texts = texts @ collect v []"
proof (induction v arbitrary: texts)
  case (PList xs)
  have "fold collect xs t = t @ concat (map (\<lambda>x. collect x []) xs)" for t
    by (rule fold_emit) (rule PList.IH)
  from this[of texts] this[of "[]"] show ?case by simp
next
  case (PDict kvs)
  let ?f = "\<lambda>(k, v) t. collect v (t @ [lower k])"
  have step: "?f p t = t @ ?f p []" if "p \<in> set kvs" for p t
  proof -
    obtain k v where p: "p = (k, v)" by (cases p)
    have "v \<in> Basic_BNFs.snds p" by (simp add: p)
    then have "collect v u = u @ collect v []" for u
      using PDict.IH that by blast
    from this[of "t @ [lower k]"] this[of "[lower k]"] show ?thesis by (simp add: p)
  qed
  have "fold ?f kvs t = t @ concat (map (\<lambda>x. ?f x []) kvs)" for t
    by (rule fold_emit) (rule step)
  from this[of texts] this[of "[]"] show ?case by simp
next
  case PNone
  show ?case by simp
next
  case (PInt i)
  show ?case by simp
next
  case (PStr s)
  show ?case by simp
next
  case (PBytes b)
  show ?case by simp
next
  case (PObj s t n)
  show ?case by (cases s) simp_all
qed

lemma collect_PList: "collect (PList xs) [] = concat (map (\<lambda>x. collect x []) xs)"
proof -
  have "fold collect xs [] = [] @ concat (map (\<lambda>x. collect x []) xs)"
    by (rule fold_emit) (rule collect_append)
  then show ?thesis by simp
qed

lemma collect_PDict:
  "collect (PDict kvs) [] = concat (map (\<lambda>(k, v). lower k # collect v []) kvs)"
proof -
  let ?f = "\<lambda>(k, v) t. collect v (t @ [lower k])"
  have step: "?f p t = t @ ?f p []" for p t
    using collect_append[of "snd p" "t @ [lower (fst p)]"] collect_append[of "snd p" "[lower (fst p)]"]
    by (simp add: case_prod_beta)
  have "fold ?f kvs [] = [] @ concat (map (\<lambda>p. ?f p []) kvs)"
    by (rule fold_emit) (rule step)
  moreover have "?f p [] = (\<lambda>(k, v). lower k # collect v []) p" for p
    using collect_append[of "snd p" "[lower (fst p)]"] by (simp add: case_prod_beta)
  ultimately show ?thesis by simp
qed

lemma mentions_PList: "mentions (PList xs) s \<longleftrightarrow> (\<exists>v \<in> set xs. mentions v s)"
  by (subst mentions.simps) auto

lemma mentions_PDict:
  "mentions (PDict kvs) s \<longleftrightarrow> (\<exists>(k, v) \<in> set kvs. s = k \<or> mentions v s)"
  by (subst mentions.simps) auto

lemma mentions_atoms:
  "mentions PNone s \<longleftrightarrow> s = ''None''"
  "mentions (PInt i) s \<longleftrightarrow> s = str_int i"
  "mentions (PStr u) s \<longleftrightarrow> s = u"
  "mentions (PBytes b) s \<longleftrightarrow> s = bytes_repr b"
  "mentions (PObj r t n) s \<longleftrightarrow> r = Some s"
  using mentions.simps[of PNone s] mentions.simps[of "PInt i" s] mentions.simps[of "PStr u" s]
    mentions.simps[of "PBytes b" s] mentions.simps[of "PObj r t n" s]
  by auto

text \<open>The tokens are the lowercased strings the value holds.\<close>

lemma set_collect: "set (collect v []) = lower ` {s. mentions v s}"
proof (induction v)
  case (PList xs)
  then show ?case
    by (auto simp: collect_PList mentions_PList simp del: collect.simps(1,2))
next
  case (PDict kvs)
  have IH: "set (collect v []) = lower ` {s. mentions v s}" if "(k, v) \<in> set kvs" for k v
    using PDict.IH[of "(k, v)" v] that by simp
  show ?case
    by (auto simp: collect_PDict mentions_PDict IH simp del: collect.simps(1,2)) (force simp: IH)+
qed (auto simp: mentions_atoms split: option.splits)

lemma fold_filter:
  "fold (\<lambda>kw rs. if P kw then rs @ [f kw] else rs) kws acc = acc @ map f (filter P kws)"
  by (induction kws arbitrary: acc) simp_all

lemma detect_generator_reasons_eq:
  "detect_generator_reasons md =
     map (\<lambda>kw. ''Generator tag detected: '' @ kw)
       (filter (\<lambda>kw. \<exists>s. mentions (PDict md) s \<and> sublist kw (lower s)) GENERATOR_KEYWORDS)"
proof -
  have "list_ex (\<lambda>t. sublist kw t) (collect (PDict md) []) \<longleftrightarrow>
        (\<exists>s. mentions (PDict md) s \<and> sublist kw (lower s))" for kw
    by (auto simp: list_ex_iff set_collect simp del: collect.simps(1,2))
  then show ?thesis
    by (simp add: detect_generator_reasons_def fold_filter)
qed

section \<open>The metadata record and the result\<close>

lemma map_of_dict_set: "map_of (dict_set k v d) = (map_of d)(k \<mapsto> v)"
  by (induction d) auto

lemma extract_metadata_lookup:
  assumes "extract_metadata E img = Inr md"
  shows "map_of md ''exif'' =
           (if extract_exif E img = [] then None else Some (PDict (extract_exif E img)))"
    and "map_of md ''format'' = Some (case img_format img of None \<Rightarrow> PNone | Some f \<Rightarrow> PStr f)"
  using assms
  by (auto simp: extract_metadata_def Let_def map_of_dict_set split: if_splits sum.splits)

lemma extract_metadata_has_exif:
  assumes "extract_metadata E img = Inr md"
  shows "has_exif_of md \<longleftrightarrow> map_of md ''exif'' \<noteq> None"
    and "has_exif_of md \<longleftrightarrow> extract_exif E img \<noteq> []"
    and "map_of md ''exif'' \<noteq> Some (PDict [])"
  using extract_metadata_lookup(1)[OF assms]
  by (auto simp: has_exif_of_def dict_get_def)

lemma analyze_image_InrD:
  assumes "analyze_image E img = Inr r"
  obtains small gray where
    "resize_for_metrics E img 1024 = Inr small"
    "pil_to_nd_gray E small = Inr gray"
    "extract_metadata E img = Inr (metadata r)"
    "blockiness (metrics r) = compute_blockiness gray"
    "noise_estimate (metrics r) = compute_noise E gray"
    "hist_entropy (metrics r) = compute_entropy E gray"
    "reasons r = build_reasons (detect_generator_reasons (metadata r)) (has_exif_of (metadata r))
        (hist_entropy (metrics r)) (noise_estimate (metrics r)) (blockiness (metrics r))
        (img_format img)"
    "score r = np_clip (score_sum (detect_generator_reasons (metadata r))
        (has_exif_of (metadata r)) (hist_entropy (metrics r)) (noise_estimate (metrics r))
        (blockiness (metrics r))) 0 1"
    "label r = label_for (score r)"
  using assms
  by (auto simp: analyze_image_def Let_def split: sum.splits)

lemma score_sum_eq:
  "score_sum g h e n b =
     (if g \<noteq> [] then 0.60 else 0) + (if \<not> h then 0.15 else 0)
     + (0.35 - min e 0.35) / 0.35 * 0.10
     + (0.20 - min n 0.20) / 0.20 * 0.10
     + (0.05 - min b 0.05) / 0.05 * 0.05"
  by (simp add: score_sum_def Let_def)

lemma build_reasons_eq:
  "build_reasons g h e n b f =
     g @ (if \<not> h then [''No EXIF metadata present''] else [])
       @ (if e < 0.35 then [''Low histogram entropy''] else [])
       @ (if n < 0.20 then [''Low high-frequency noise''] else [])
       @ (if b < 0.05 \<and> f \<noteq> Some ''PNG'' then [''Very low JPEG blockiness''] else [])"
  by (simp add: build_reasons_def Let_def)

subsection \<open>The sample run\<close>

lemma sample_extract_metadata:
  "extract_metadata sample_externals sample_image = Inr sample_metadata"
  by (simp add: extract_metadata_def sample_externals_def sample_image_def pil_info_of_def
      dict_get_def extract_exif_def sample_metadata_def)

lemma sample_detect:
  "detect_generator_reasons sample_metadata = [''Generator tag detected: midjourney'']"
  unfolding sample_metadata_def by code_simp

lemma sample_run: "analyze_image sample_externals sample_image = Inr sample_result"
proof -
  have rs: "resize_for_metrics sample_externals sample_image 1024 = Inr sample_image"
    by (simp add: resize_for_metrics_def sample_image_def)
  obtain g where g: "pil_to_nd_gray sample_externals sample_image = Inr g" "shape g = (2, 2)"
    by (auto simp: pil_to_nd_gray_def sample_externals_def sample_image_def)
  have b: "compute_blockiness g = 0" using g(2) by (simp add: compute_blockiness_def)
  have n: "compute_noise sample_externals g = 1 / 2"
    by (simp add: compute_noise_def sample_externals_def np_clip_def)
  have e: "compute_entropy sample_externals g = 3 / 4"
    by (simp add: compute_entropy_def sample_externals_def np_clip_def)
  have h: "\<not> has_exif_of sample_metadata"
    by (simp add: has_exif_of_def dict_get_def sample_metadata_def)
  have f: "img_format sample_image = Some ''PNG''" by (simp add: sample_image_def)
  show ?thesis
    by (simp add: analyze_image_def rs g sample_extract_metadata b n e h f sample_detect Let_def
        build_reasons_def score_sum_def np_clip_def label_for_def sample_result_def)
qed

lemma nested_detect:
  "detect_generator_reasons nested_metadata =
     [''Generator tag detected: midjourney'', ''Generator tag detected: openai'']"
  unfolding nested_metadata_def by code_simp

lemma copied_detect:
  "detect_generator_reasons copied_metadata = [''Generator tag detected: midjourney'']"
  unfolding copied_metadata_def by code_simp

lemma copied_run:
  "analyze_image copying_externals (sample_image\<lparr>img_format := None\<rparr>) = Inr copied_result"
proof -
  let ?img = "sample_image\<lparr>img_format := None\<rparr>"
  let ?E = copying_externals
  have rs: "resize_for_metrics ?E ?img 1024 = Inr ?img"
    by (simp add: resize_for_metrics_def sample_image_def)
  obtain g where g: "pil_to_nd_gray ?E ?img = Inr g" "shape g = (2, 2)"
    by (auto simp: pil_to_nd_gray_def copying_externals_def sample_externals_def sample_image_def)
  have b: "compute_blockiness g = 0" using g(2) by (simp add: compute_blockiness_def)
  have n: "compute_noise ?E g = 1 / 2"
    by (simp add: compute_noise_def copying_externals_def sample_externals_def np_clip_def)
  have e: "compute_entropy ?E g = 3 / 4"
    by (simp add: compute_entropy_def copying_externals_def sample_externals_def np_clip_def)
  have h: "\<not> has_exif_of copied_metadata"
    by (simp add: has_exif_of_def dict_get_def copied_metadata_def)
  have f: "img_format ?img = None" by simp
  have md: "extract_metadata ?E ?img = Inr copied_metadata"
    by (simp add: extract_metadata_def copying_externals_def sample_externals_def
        sample_image_def pil_info_of_def dict_get_def extract_exif_def copied_metadata_def)
  show ?thesis
    by (simp add: analyze_image_def rs g md b n e h f copied_detect Let_def
        build_reasons_def score_sum_def np_clip_def label_for_def copied_result_def)
qed

section \<open>Auxiliary facts\<close>

lemma distinct_GENERATOR_KEYWORDS: "distinct GENERATOR_KEYWORDS"
  by (simp add: GENERATOR_KEYWORDS_def)

lemma count_list_map_filter:
  assumes "distinct xs" "inj f"
  shows "count_list (map f (filter P xs)) (f x) = (if x \<in> set xs \<and> P x then 1 else 0)"
  using assms(1)
proof (induction xs)
  case Nil
  show ?case by simp
next
  case (Cons a xs)
  have "f a = f x \<longleftrightarrow> a = x" using assms(2) by (auto dest: injD)
  with Cons show ?case by auto
qed

lemma inj_tag: "inj (\<lambda>kw. ''Generator tag detected: '' @ kw)"
  by (rule injI) simp

lemma detect_generator_reasons_prefix:
  assumes "x \<in> set (detect_generator_reasons md)"
  shows "take 9 x = ''Generator''"
  using assms by (auto simp: detect_generator_reasons_eq)

lemma distinct_detect_generator_reasons: "distinct (detect_generator_reasons md)"
  unfolding detect_generator_reasons_eq
  by (intro distinct_map_filter) (simp add: distinct_map distinct_GENERATOR_KEYWORDS inj_on_def)

lemma score_sum_ge:
  assumes "g \<noteq> []"
  shows "0.60 \<le> score_sum g h e n b"
proof -
  have "0 \<le> (0.35 - min e 0.35) / 0.35 * 0.10" by simp
  moreover have "0 \<le> (0.20 - min n 0.20) / 0.20 * 0.10" by simp
  moreover have "0 \<le> (0.05 - min b 0.05) / 0.05 * 0.05" by simp
  ultimately show ?thesis unfolding score_sum_eq using assms by (simp split: if_splits)
qed

lemma np_clip_unit: "0 \<le> np_clip x 0 1 \<and> np_clip x 0 1 \<le> 1"
  by (simp add: np_clip_def)

lemma compute_blockiness_unit: "0 \<le> compute_blockiness g \<and> compute_blockiness g \<le> 1"
  using np_clip_unit by (simp add: compute_blockiness_def Let_def split: prod.splits)

text \<open>The score and the reasons of a result, in terms of its metadata and metrics.\<close>

lemma analyze_image_score:
  assumes "analyze_image E img = Inr r"
  shows "score r =
           min (max ((if detect_generator_reasons (metadata r) \<noteq> [] then 0.60 else 0)
                     + (if map_of (metadata r) ''exif'' = None then 0.15 else 0)
                     + (0.35 - min (hist_entropy (metrics r)) 0.35) / 0.35 * 0.10
                     + (0.20 - min (noise_estimate (metrics r)) 0.20) / 0.20 * 0.10
                     + (0.05 - min (blockiness (metrics r)) 0.05) / 0.05 * 0.05) 0) 1"
proof -
  from assms obtain small :: image and gray :: ndarray where
    md: "extract_metadata E img = Inr (metadata r)"
    and sc: "score r = np_clip (score_sum (detect_generator_reasons (metadata r))
        (has_exif_of (metadata r)) (hist_entropy (metrics r)) (noise_estimate (metrics r))
        (blockiness (metrics r))) 0 1"
    by (rule analyze_image_InrD)
  have "has_exif_of (metadata r) \<longleftrightarrow> map_of (metadata r) ''exif'' \<noteq> None"
    by (rule extract_metadata_has_exif(1)[OF md])
  then show ?thesis
    unfolding sc score_sum_eq np_clip_def by simp
qed

lemma analyze_image_reasons:
  assumes "analyze_image E img = Inr r"
  shows "reasons r =
           detect_generator_reasons (metadata r)
           @ (if map_of (metadata r) ''exif'' = None \<or> map_of (metadata r) ''exif'' = Some (PDict [])
              then [''No EXIF metadata present''] else [])
           @ (if hist_entropy (metrics r) < 0.35 then [''Low histogram entropy''] else [])
           @ (if noise_estimate (metrics r) < 0.20 then [''Low high-frequency noise''] else [])
           @ (if blockiness (metrics r) < 0.05 \<and> img_format img \<noteq> Some ''PNG''
              then [''Very low JPEG blockiness''] else [])"
proof -
  from assms obtain small :: image and gray :: ndarray where
    md: "extract_metadata E img = Inr (metadata r)"
    and rs: "reasons r = build_reasons (detect_generator_reasons (metadata r))
        (has_exif_of (metadata r)) (hist_entropy (metrics r)) (noise_estimate (metrics r))
        (blockiness (metrics r)) (img_format img)"
    by (rule analyze_image_InrD)
  have "\<not> has_exif_of (metadata r) \<longleftrightarrow>
          map_of (metadata r) ''exif'' = None \<or> map_of (metadata r) ''exif'' = Some (PDict [])"
    using extract_metadata_has_exif(1,3)[OF md] by simp
  then show ?thesis
    unfolding rs build_reasons_eq by simp
qed

lemma count_list_distinct: "distinct xs \<Longrightarrow> count_list xs x \<le> 1"
  by (induction xs) auto

lemma distinct_optional_tail:
  assumes "distinct g" "a \<notin> set g" "b \<notin> set g" "c \<notin> set g" "d \<notin> set g"
    and "distinct [a, b, c, d]"
  shows "distinct (g @ (if A then [a] else []) @ (if B then [b] else [])
                     @ (if C then [c] else []) @ (if D then [d] else []))"
  using assms by auto

lemma format_value_inj:
  "(case f of None \<Rightarrow> PNone | Some x \<Rightarrow> PStr x) = (case g of None \<Rightarrow> PNone | Some x \<Rightarrow> PStr x)
     \<Longrightarrow> f = g"
  by (cases f; cases g) simp_all

subsection \<open>The resize of a thin image\<close>

lemma py_round_small:
  assumes "0 \<le> x" "x < 1 / 2"
  shows "py_round x = 0"
proof -
  have "\<lfloor>x\<rfloor> = 0" using assms by (simp add: floor_eq_iff)
  then show ?thesis using assms by (simp add: py_round_def Let_def)
qed

lemma py_round_of_nat: "py_round (real n) = int n"
  by (simp add: py_round_def Let_def)

lemma resize_for_metrics_thin:
  assumes "img_size img = (1, h)" "2048 < h"
  shows "resize_for_metrics E img 1024 = img_resize E img (0, 1024)"
proof -
  have h: "max (Suc 0) h = h" "0 < real h" using assms(2) by simp_all
  have lt: "1024 / real h < 1 / 2" using assms(2) by (simp add: field_simps)
  then have sc: "min 1 (1024 / real h) = 1024 / real h" "1024 / real h < 1" by simp_all
  have r1: "py_round (1024 / real h) = 0"
    by (rule py_round_small) (use lt in simp_all)
  have r2: "py_round 1024 = 1024"
    using py_round_of_nat[of 1024] by simp
  show ?thesis
    using h(2) by (simp add: resize_for_metrics_def assms(1) h(1) sc r1 r2 Let_def)
qed

subsection \<open>EXIF failures are recovered\<close>

lemma extract_exif_load_fails:
  assumes "\<And>v. \<exists>e. piexif_load E v = Inl e"
  shows "extract_exif E img = []"
proof -
  have "\<exists>e. (if truthy (dict_get (img_info img) ''exif'')
              then piexif_load E (dict_get (img_info img) ''exif'')
              else (case img_tobytes E img of Inl e \<Rightarrow> Inl e
                    | Inr b \<Rightarrow> piexif_load E (PBytes b))) = Inl e"
    using assms by (auto split: sum.splits)
  then show ?thesis by (auto simp: extract_exif_def Let_def)
qed

lemma extract_exif_tobytes_fails:
  assumes "\<not> truthy (dict_get (img_info img) ''exif'')" "img_tobytes E img = Inl e"
  shows "extract_exif E img = []"
  using assms by (simp add: extract_exif_def Let_def)

lemma extract_metadata_without_exif:
  assumes "extract_exif E img = []" "extract_metadata E img = Inr md"
  shows "map_of md ''exif'' = None"
  using extract_metadata_lookup(1)[OF assms(2)] assms(1) by simp

lemma extract_metadata_raises_only_len:
  assumes "extract_metadata E img = Inl e"
  shows "truthy (dict_get (img_info img) ''icc_profile'')
       \<and> py_len (dict_get (img_info img) ''icc_profile'') = Inl e"
  using assms
  by (auto simp: extract_metadata_def Let_def split: if_splits sum.splits)

lemma analyze_invalid_image_iff:
  "analyze E data = Inl (InvalidImage e) \<longleftrightarrow> load_image_from_bytes E data = Inl e"
  by (auto simp: analyze_def split: sum.splits)

section \<open>The score\<close>

text \<open>
  Claim C1.  For every image that \<open>analyze_image\<close> returns a result for, the score
  is the sum of five terms, clamped to the unit interval: 0.60 if the detector
  returned a reason, 0.15 if the metadata has no \<^verbatim>\<open>exif\<close> entry, and the three
  linear ramps of the entropy below 0.35 (up to 0.10), of the noise below 0.20 (up
  to 0.10) and of the blockiness below 0.05 (up to 0.05).
\<close>

theorem score_formula:
  assumes "analyze_image E img = Inr r"
  shows "score r =
           min (max ((if detect_generator_reasons (metadata r) \<noteq> [] then 0.60 else 0)
                     + (if map_of (metadata r) ''exif'' = None then 0.15 else 0)
                     + (0.35 - min (hist_entropy (metrics r)) 0.35) / 0.35 * 0.10
                     + (0.20 - min (noise_estimate (metrics r)) 0.20) / 0.20 * 0.10
                     + (0.05 - min (blockiness (metrics r)) 0.05) / 0.05 * 0.05) 0) 1"
proof -
  from assms obtain small :: image and gray :: ndarray where
    md: "extract_metadata E img = Inr (metadata r)"
    and sc: "score r = np_clip (score_sum (detect_generator_reasons (metadata r))
        (has_exif_of (metadata r)) (hist_entropy (metrics r)) (noise_estimate (metrics r))
        (blockiness (metrics r))) 0 1"
    by (rule analyze_image_InrD)
  have "has_exif_of (metadata r) \<longleftrightarrow> map_of (metadata r) ''exif'' \<noteq> None"
    by (rule extract_metadata_has_exif(1)[OF md])
  then show ?thesis
    unfolding sc score_sum_eq np_clip_def by simp
qed

theorem score_formula_witness:
  "analyze_image sample_externals sample_image = Inr sample_result \<and>
   score sample_result = 4 / 5 \<and>
   detect_generator_reasons (metadata sample_result) \<noteq> [] \<and>
   map_of (metadata sample_result) ''exif'' = None \<and>
   hist_entropy (metrics sample_result) = 3 / 4 \<and>
   noise_estimate (metrics sample_result) = 1 / 2 \<and>
   blockiness (metrics sample_result) = 0 \<and>
   (4 / 5 :: real) = min (max (0.60 + 0.15 + 0 + 0 + 0.05) 0) 1"
proof -
  have m: "metadata sample_result = sample_metadata" by (simp add: sample_result_def)
  have x: "map_of sample_metadata ''exif'' = None" by (simp add: sample_metadata_def)
  have v: "score sample_result = 4 / 5" "hist_entropy (metrics sample_result) = 3 / 4"
    "noise_estimate (metrics sample_result) = 1 / 2" "blockiness (metrics sample_result) = 0"
    by (simp_all add: sample_result_def)
  show ?thesis
    using score_formula[OF sample_run] sample_run
    by (simp add: m x v sample_detect)
qed

section \<open>The label\<close>

text \<open>
  Claim C2.  The label of a result is a function of its score alone, with the
  thresholds 0.75 and 0.45, both closed below: a score from 0.75 on is labelled
  "Likely AI-generated", a score from 0.45 on and below 0.75 "Possibly
  AI-generated", a score below 0.45 "Likely human-captured"; so 0.75 and 0.45
  fall into the higher class, 0.749999 and 0.449999 into the lower.
\<close>

theorem label_thresholds:
  assumes "analyze_image E img = Inr r"
  shows "label r = label_for (score r)
       \<and> (0.75 \<le> score r \<longrightarrow> label r = ''Likely AI-generated'')
       \<and> (0.45 \<le> score r \<and> score r < 0.75 \<longrightarrow> label r = ''Possibly AI-generated'')
       \<and> (score r < 0.45 \<longrightarrow> label r = ''Likely human-captured'')
       \<and> label_for 0.75 = ''Likely AI-generated''
       \<and> label_for 0.749999 = ''Possibly AI-generated''
       \<and> label_for 0.45 = ''Possibly AI-generated''
       \<and> label_for 0.449999 = ''Likely human-captured''"
proof -
  from assms obtain small :: image and gray :: ndarray where "label r = label_for (score r)"
    by (rule analyze_image_InrD)
  then show ?thesis by (simp add: label_for_def)
qed

theorem label_thresholds_witness:
  "analyze_image sample_externals sample_image = Inr sample_result \<and>
   0.75 \<le> score sample_result \<and> label sample_result = ''Likely AI-generated''"
  using label_thresholds[OF sample_run] sample_run
  by (simp add: sample_result_def)

section \<open>The generator signature detector\<close>

text \<open>
  Claim C3.  For any metadata record the detector returns, in the order of the
  keyword list, one reason for every keyword that is a substring of the lowercased
  form of a string the record holds (a key or the text of a value, at any depth);
  each such keyword is named by exactly one reason.  A record that holds
  "midjourney" anywhere, in any case, yields the reason "Generator tag detected:
  midjourney", and the score is at least 0.60, before the clamp and after it.
\<close>

theorem generator_signature_detection:
  "detect_generator_reasons md =
     map (\<lambda>kw. ''Generator tag detected: '' @ kw)
       (filter (\<lambda>kw. \<exists>s. mentions (PDict md) s \<and> sublist kw (lower s)) GENERATOR_KEYWORDS)
   \<and> (\<forall>kw \<in> set GENERATOR_KEYWORDS.
         count_list (detect_generator_reasons md) (''Generator tag detected: '' @ kw) =
           (if \<exists>s. mentions (PDict md) s \<and> sublist kw (lower s) then 1 else 0))
   \<and> (\<forall>s. mentions (PDict md) s \<and> sublist ''midjourney'' (lower s) \<longrightarrow>
         ''Generator tag detected: midjourney'' \<in> set (detect_generator_reasons md)
         \<and> (\<forall>h e n b. 0.60 \<le> score_sum (detect_generator_reasons md) h e n b))
   \<and> (\<forall>E img r s. analyze_image E img = Inr r \<and> mentions (PDict (metadata r)) s
         \<and> sublist ''midjourney'' (lower s) \<longrightarrow>
         ''Generator tag detected: midjourney'' \<in> set (reasons r) \<and> 0.60 \<le> score r)"
proof -
  have kw: "''midjourney'' \<in> set GENERATOR_KEYWORDS"
    by (simp add: GENERATOR_KEYWORDS_def)
  have found: "''Generator tag detected: midjourney'' \<in> set (detect_generator_reasons d)"
    if "mentions (PDict d) s" "sublist ''midjourney'' (lower s)" for d s
  proof -
    have "''Generator tag detected: '' @ ''midjourney'' \<in> set (detect_generator_reasons d)"
      unfolding detect_generator_reasons_eq using that kw by (auto simp del: append.simps)
    then show ?thesis by simp
  qed
  have c1: "detect_generator_reasons md =
     map (\<lambda>kw. ''Generator tag detected: '' @ kw)
       (filter (\<lambda>kw. \<exists>s. mentions (PDict md) s \<and> sublist kw (lower s)) GENERATOR_KEYWORDS)"
    by (rule detect_generator_reasons_eq)
  have c2: "\<forall>kw \<in> set GENERATOR_KEYWORDS.
         count_list (detect_generator_reasons md) (''Generator tag detected: '' @ kw) =
           (if \<exists>s. mentions (PDict md) s \<and> sublist kw (lower s) then 1 else 0)"
  proof
    fix kw assume k: "kw \<in> set GENERATOR_KEYWORDS"
    define tag where "tag = (\<lambda>kw. ''Generator tag detected: '' @ kw)"
    define P where "P = (\<lambda>kw. \<exists>s. mentions (PDict md) s \<and> sublist kw (lower s))"
    have "inj tag" unfolding tag_def by (rule inj_tag)
    then have "count_list (map tag (filter P GENERATOR_KEYWORDS)) (tag kw) =
                 (if kw \<in> set GENERATOR_KEYWORDS \<and> P kw then 1 else 0)"
      by (rule count_list_map_filter[OF distinct_GENERATOR_KEYWORDS])
    moreover have "detect_generator_reasons md = map tag (filter P GENERATOR_KEYWORDS)"
      unfolding tag_def P_def by (rule c1)
    ultimately have "count_list (detect_generator_reasons md) (tag kw) = (if P kw then 1 else 0)"
      using k by simp
    then show "count_list (detect_generator_reasons md) (''Generator tag detected: '' @ kw) =
           (if \<exists>s. mentions (PDict md) s \<and> sublist kw (lower s) then 1 else 0)"
      unfolding tag_def P_def .
  qed
  have c3: "\<forall>s. mentions (PDict md) s \<and> sublist ''midjourney'' (lower s) \<longrightarrow>
         ''Generator tag detected: midjourney'' \<in> set (detect_generator_reasons md)
         \<and> (\<forall>h e n b. 0.60 \<le> score_sum (detect_generator_reasons md) h e n b)"
  proof (intro allI impI, elim conjE)
    fix s assume s: "mentions (PDict md) s" "sublist ''midjourney'' (lower s)"
    have m: "''Generator tag detected: midjourney'' \<in> set (detect_generator_reasons md)"
      by (rule found[OF s])
    then have "detect_generator_reasons md \<noteq> []" by auto
    then have "0.60 \<le> score_sum (detect_generator_reasons md) h e n b" for h e n b
      by (rule score_sum_ge)
    with m show "''Generator tag detected: midjourney'' \<in> set (detect_generator_reasons md)
         \<and> (\<forall>h e n b. 0.60 \<le> score_sum (detect_generator_reasons md) h e n b)"
      by blast
  qed
  have c4: "\<forall>E img r s. analyze_image E img = Inr r \<and> mentions (PDict (metadata r)) s
         \<and> sublist ''midjourney'' (lower s) \<longrightarrow>
         ''Generator tag detected: midjourney'' \<in> set (reasons r) \<and> 0.60 \<le> score r"
  proof (intro allI impI, elim conjE)
    fix E img r s
    assume a: "analyze_image E img = Inr r"
      and s: "mentions (PDict (metadata r)) s" "sublist ''midjourney'' (lower s)"
    have m: "''Generator tag detected: midjourney'' \<in> set (detect_generator_reasons (metadata r))"
      by (rule found[OF s])
    then have ne: "detect_generator_reasons (metadata r) \<noteq> []" by auto
    from a obtain small :: image and gray :: ndarray where
      sc: "score r = np_clip (score_sum (detect_generator_reasons (metadata r))
        (has_exif_of (metadata r)) (hist_entropy (metrics r)) (noise_estimate (metrics r))
        (blockiness (metrics r))) 0 1"
      by (rule analyze_image_InrD)
    have "0.60 \<le> score_sum (detect_generator_reasons (metadata r))
        (has_exif_of (metadata r)) (hist_entropy (metrics r)) (noise_estimate (metrics r))
        (blockiness (metrics r))"
      by (rule score_sum_ge[OF ne])
    then have "0.60 \<le> score r" unfolding sc np_clip_def by simp
    moreover have "''Generator tag detected: midjourney'' \<in> set (reasons r)"
      unfolding analyze_image_reasons[OF a] using m by simp
    ultimately show "''Generator tag detected: midjourney'' \<in> set (reasons r) \<and> 0.60 \<le> score r"
      by simp
  qed
  from c1 c2 c3 c4 show ?thesis by (intro conjI)
qed

theorem generator_signature_detection_witness:
  "mentions (PDict nested_metadata) ''Made with MIDJOURNEY''
   \<and> sublist ''midjourney'' (lower ''Made with MIDJOURNEY'')
   \<and> ''midjourney'' \<in> set GENERATOR_KEYWORDS
   \<and> detect_generator_reasons nested_metadata =
       [''Generator tag detected: midjourney'', ''Generator tag detected: openai'']
   \<and> count_list (detect_generator_reasons nested_metadata) ''Generator tag detected: midjourney'' = 1
   \<and> 0.60 \<le> score_sum (detect_generator_reasons nested_metadata) True 1 1 1
   \<and> analyze_image sample_externals sample_image = Inr sample_result
   \<and> mentions (PDict (metadata sample_result)) ''Steps: 20, Model: MidJourney v5''
   \<and> 0.60 \<le> score sample_result"
proof -
  have m: "mentions (PDict nested_metadata) ''Made with MIDJOURNEY''"
    unfolding nested_metadata_def
    by (rule mentions.val[where k = "''pil_info''"], simp, rule mentions.key, simp)
  have s: "sublist ''midjourney'' (lower ''Made with MIDJOURNEY'')"
    by code_simp
  have k: "''midjourney'' \<in> set GENERATOR_KEYWORDS"
    by (simp add: GENERATOR_KEYWORDS_def)
  have md: "metadata sample_result = sample_metadata" by (simp add: sample_result_def)
  have m2: "mentions (PDict (metadata sample_result)) ''Steps: 20, Model: MidJourney v5''"
    unfolding md sample_metadata_def
    by (rule mentions.val[where k = "''pil_info''"], simp,
        rule mentions.val[where k = "''parameters''"], simp, rule mentions.str)
  have s2: "sublist ''midjourney'' (lower ''Steps: 20, Model: MidJourney v5'')"
    by code_simp
  have sc: "0.60 \<le> score sample_result" by (simp add: sample_result_def)
  have c: "count_list (detect_generator_reasons nested_metadata)
             ''Generator tag detected: midjourney'' = 1"
    by (simp add: nested_detect)
  have g: "0.60 \<le> score_sum (detect_generator_reasons nested_metadata) True 1 1 1"
    using generator_signature_detection[of nested_metadata] m s by blast
  from m s k nested_detect c g sample_run m2 sc show ?thesis by (intro conjI)
qed

section \<open>The reasons\<close>



text \<open>
  On the image it is handed, \<open>analyze_image\<close> gives no blockiness reason for a PNG
  and adds the blockiness term all the same.
\<close>

lemma analyze_image_png_gate:
  assumes "analyze_image E img = Inr r"
    and "img_format img = Some ''PNG''"
    and "blockiness (metrics r) < 0.05"
  shows "''Very low JPEG blockiness'' \<notin> set (reasons r)
       \<and> score r =
           min (max ((if detect_generator_reasons (metadata r) \<noteq> [] then 0.60 else 0)
                     + (if map_of (metadata r) ''exif'' = None then 0.15 else 0)
                     + (0.35 - min (hist_entropy (metrics r)) 0.35) / 0.35 * 0.10
                     + (0.20 - min (noise_estimate (metrics r)) 0.20) / 0.20 * 0.10
                     + (0.05 - min (blockiness (metrics r)) 0.05) / 0.05 * 0.05) 0) 1
       \<and> 0 < (0.05 - min (blockiness (metrics r)) 0.05) / 0.05 * 0.05"
proof (intro conjI)
  have "''Very low JPEG blockiness'' \<notin> set (detect_generator_reasons (metadata r))"
    using detect_generator_reasons_prefix[of "''Very low JPEG blockiness''" "metadata r"] by auto
  then show "''Very low JPEG blockiness'' \<notin> set (reasons r)"
    unfolding analyze_image_reasons[OF assms(1)] using assms(2) by simp
  show "score r =
           min (max ((if detect_generator_reasons (metadata r) \<noteq> [] then 0.60 else 0)
                     + (if map_of (metadata r) ''exif'' = None then 0.15 else 0)
                     + (0.35 - min (hist_entropy (metrics r)) 0.35) / 0.35 * 0.10
                     + (0.20 - min (noise_estimate (metrics r)) 0.20) / 0.20 * 0.10
                     + (0.05 - min (blockiness (metrics r)) 0.05) / 0.05 * 0.05) 0) 1"
    by (rule analyze_image_score[OF assms(1)])
  show "0 < (0.05 - min (blockiness (metrics r)) 0.05) / 0.05 * 0.05"
    using assms(3) by simp
qed

text \<open>
  Claim C5.  The claim is that a PNG image with blockiness below 0.05 does not get
  the reason "Very low JPEG blockiness".  The routes hand \<open>analyze_image\<close> the image
  that \<^verbatim>\<open>exif_transpose\<close> returns (line 22), not the one that was opened.  When
  that image carries no format, a PNG upload with blockiness below 0.05 does get
  the reason, and its metadata records no format.
\<close>

theorem png_upload_loses_format:
  assumes "image_open E data = Inr png" and "img_format png = Some ''PNG''"
    and "exif_transpose E png = Inr img" and "img_format img = None"
    and "analyze E data = Inr r" and "blockiness (metrics r) < 0.05"
  shows "analyze_image E img = Inr r
       \<and> ''Very low JPEG blockiness'' \<in> set (reasons r)
       \<and> map_of (metadata r) ''format'' = Some PNone"
proof -
  have l: "load_image_from_bytes E data = Inr img"
    by (simp add: load_image_from_bytes_def assms(1,3))
  have a: "analyze_image E img = Inr r"
    using assms(5) by (simp add: analyze_def l split: sum.splits)
  from a obtain small :: image and gray :: ndarray where
    md: "extract_metadata E img = Inr (metadata r)"
    by (rule analyze_image_InrD)
  have "''Very low JPEG blockiness'' \<in> set (reasons r)"
    unfolding analyze_image_reasons[OF a] using assms(4,6) by simp
  moreover have "map_of (metadata r) ''format'' = Some PNone"
    using extract_metadata_lookup(2)[OF md] assms(4) by simp
  ultimately show ?thesis using a by simp
qed

theorem png_upload_loses_format_witness:
  "image_open copying_externals ''png'' = Inr sample_image
   \<and> img_format sample_image = Some ''PNG''
   \<and> exif_transpose copying_externals sample_image = Inr (sample_image\<lparr>img_format := None\<rparr>)
   \<and> img_format (sample_image\<lparr>img_format := None\<rparr>) = None
   \<and> analyze copying_externals ''png'' = Inr copied_result
   \<and> blockiness (metrics copied_result) < 0.05
   \<and> ''Very low JPEG blockiness'' \<in> set (reasons copied_result)
   \<and> map_of (metadata copied_result) ''format'' = Some PNone"
proof -
  have o: "image_open copying_externals ''png'' = Inr sample_image"
    by (simp add: copying_externals_def sample_externals_def)
  have p: "img_format sample_image = Some ''PNG''" by (simp add: sample_image_def)
  have t: "exif_transpose copying_externals sample_image = Inr (sample_image\<lparr>img_format := None\<rparr>)"
    by (simp add: copying_externals_def)
  have n: "img_format (sample_image\<lparr>img_format := None\<rparr>) = None" by simp
  have a: "analyze copying_externals ''png'' = Inr copied_result"
    by (simp add: analyze_def load_image_from_bytes_def o t copied_run)
  have b: "blockiness (metrics copied_result) < 0.05" by (simp add: copied_result_def)
  from png_upload_loses_format[OF o p t n a b] o p t n a b show ?thesis by simp
qed

section \<open>The result as a function of the metadata and the metrics\<close>

text \<open>
  The score, the label and the reasons of a result are determined by its metadata
  and its metrics: two results with the same metadata and the same metrics, of
  whatever images and libraries, agree on all three.
\<close>

lemma result_determined_by_metadata_and_metrics:
  assumes a: "analyze_image E1 img1 = Inr q1" "analyze_image E2 img2 = Inr q2"
    and md: "metadata q1 = metadata q2" and mt: "metrics q1 = metrics q2"
  shows "score q1 = score q2 \<and> label q1 = label q2 \<and> reasons q1 = reasons q2"
proof (intro conjI)
  show s: "score q1 = score q2"
    unfolding analyze_image_score[OF a(1)] analyze_image_score[OF a(2)] md mt ..
  from a(1) obtain s1 :: image and g1 :: ndarray where
    l1: "label q1 = label_for (score q1)" and e1: "extract_metadata E1 img1 = Inr (metadata q1)"
    by (rule analyze_image_InrD)
  from a(2) obtain s2 :: image and g2 :: ndarray where
    l2: "label q2 = label_for (score q2)" and e2: "extract_metadata E2 img2 = Inr (metadata q2)"
    by (rule analyze_image_InrD)
  show "label q1 = label q2" using l1 l2 s by simp
  have "img_format img1 = img_format img2"
    using extract_metadata_lookup(2)[OF e1] extract_metadata_lookup(2)[OF e2] md
    by (auto dest: format_value_inj)
  then show "reasons q1 = reasons q2"
    unfolding analyze_image_reasons[OF a(1)] analyze_image_reasons[OF a(2)] md mt by simp
qed

section \<open>Ranges\<close>

text \<open>
  Claim C7.  The score of every result lies between 0 and 1, and so does each of
  its three metrics.
\<close>

theorem score_and_metrics_in_unit_interval:
  assumes "analyze_image E img = Inr r"
  shows "0 \<le> score r \<and> score r \<le> 1
       \<and> 0 \<le> blockiness (metrics r) \<and> blockiness (metrics r) \<le> 1
       \<and> 0 \<le> noise_estimate (metrics r) \<and> noise_estimate (metrics r) \<le> 1
       \<and> 0 \<le> hist_entropy (metrics r) \<and> hist_entropy (metrics r) \<le> 1"
proof -
  from assms obtain small :: image and gray :: ndarray where
    "blockiness (metrics r) = compute_blockiness gray"
    "noise_estimate (metrics r) = compute_noise E gray"
    "hist_entropy (metrics r) = compute_entropy E gray"
    "score r = np_clip (score_sum (detect_generator_reasons (metadata r))
        (has_exif_of (metadata r)) (hist_entropy (metrics r)) (noise_estimate (metrics r))
        (blockiness (metrics r))) 0 1"
    by (rule analyze_image_InrD)
  then show ?thesis
    using np_clip_unit compute_blockiness_unit
    by (simp add: compute_noise_def compute_entropy_def)
qed

theorem score_and_metrics_in_unit_interval_witness:
  "analyze_image sample_externals sample_image = Inr sample_result \<and>
   0 \<le> score sample_result \<and> score sample_result \<le> 1 \<and>
   metrics sample_result = \<lparr>blockiness = 0, noise_estimate = 1 / 2, hist_entropy = 3 / 4\<rparr>"
  using score_and_metrics_in_unit_interval[OF sample_run] sample_run
  by (simp add: sample_result_def)

text \<open>
  Claim C8.  A grid of fewer than 16 rows or fewer than 16 columns has blockiness
  0, as a value of \<open>compute_blockiness\<close> and as the metric of a result computed
  from such a grid.
\<close>

theorem blockiness_of_small_grid:
  "(fst (shape gray) < 16 \<or> snd (shape gray) < 16 \<longrightarrow> compute_blockiness gray = 0)
   \<and> (analyze_image E img = Inr r \<and> resize_for_metrics E img 1024 = Inr small
        \<and> pil_to_nd_gray E small = Inr g \<and> (fst (shape g) < 16 \<or> snd (shape g) < 16)
        \<longrightarrow> blockiness (metrics r) = 0)"
proof (intro conjI impI; (elim conjE)?)
  have small_grid: "compute_blockiness a = 0" if "fst (shape a) < 16 \<or> snd (shape a) < 16" for a
    using that by (auto simp: compute_blockiness_def split: prod.splits)
  show "compute_blockiness gray = 0" if "fst (shape gray) < 16 \<or> snd (shape gray) < 16"
    by (rule small_grid[OF that])
  assume a: "analyze_image E img = Inr r" and s: "resize_for_metrics E img 1024 = Inr small"
    and p: "pil_to_nd_gray E small = Inr g" and d: "fst (shape g) < 16 \<or> snd (shape g) < 16"
  from a obtain small' :: image and g' :: ndarray where
    "resize_for_metrics E img 1024 = Inr small'" "pil_to_nd_gray E small' = Inr g'"
    "blockiness (metrics r) = compute_blockiness g'"
    by (rule analyze_image_InrD)
  with s p have "blockiness (metrics r) = compute_blockiness g" by simp
  then show "blockiness (metrics r) = 0" using small_grid[OF d] by simp
qed

theorem blockiness_of_small_grid_witness:
  "fst (shape \<lparr>shape = (15, 400), px = (\<lambda>r c. real (r + c) / 1000)\<rparr>) < 16
   \<and> compute_blockiness \<lparr>shape = (15, 400), px = (\<lambda>r c. real (r + c) / 1000)\<rparr> = 0
   \<and> analyze_image sample_externals sample_image = Inr sample_result
   \<and> resize_for_metrics sample_externals sample_image 1024 = Inr sample_image
   \<and> (\<exists>g. pil_to_nd_gray sample_externals sample_image = Inr g \<and> shape g = (2, 2))
   \<and> blockiness (metrics sample_result) = 0"
proof -
  have rs: "resize_for_metrics sample_externals sample_image 1024 = Inr sample_image"
    by (simp add: resize_for_metrics_def sample_image_def)
  obtain g where g: "pil_to_nd_gray sample_externals sample_image = Inr g" "shape g = (2, 2)"
    by (auto simp: pil_to_nd_gray_def sample_externals_def sample_image_def)
  from blockiness_of_small_grid[of "\<lparr>shape = (15, 400), px = (\<lambda>r c. real (r + c) / 1000)\<rparr>"
      sample_externals sample_image sample_result sample_image g] sample_run rs g
  show ?thesis by auto
qed

section \<open>Errors\<close>

text \<open>
  Claim C9.  The claim is that only the failure to decode leaves \<open>analyze\<close>.  For an
  image one pixel wide and more than 2048 pixels high, \<^verbatim>\<open>_resize_for_metrics\<close>
  asks the image library for a width of 0; when the library refuses, its
  exception leaves \<open>analyze_image\<close> and \<open>analyze\<close> uncaught, although the bytes were
  decoded.
\<close>

theorem thin_image_error_escapes:
  assumes "load_image_from_bytes E data = Inr img"
    and "img_size img = (1, h)" and "2048 < h"
    and "img_resize E img (0, 1024) = Inl e"
  shows "resize_for_metrics E img 1024 = img_resize E img (0, 1024)
       \<and> analyze_image E img = Inl e
       \<and> analyze E data = Inl (Uncaught e)"
proof -
  have r: "resize_for_metrics E img 1024 = img_resize E img (0, 1024)"
    by (rule resize_for_metrics_thin[OF assms(2,3)])
  then have a: "analyze_image E img = Inl e"
    by (simp add: analyze_image_def assms(4))
  then show ?thesis using r by (simp add: analyze_def assms(1))
qed

theorem thin_image_error_escapes_witness:
  "load_image_from_bytes sample_externals ''thin'' = Inr thin_image
   \<and> img_size thin_image = (1, 3000) \<and> (2048 :: nat) < 3000
   \<and> img_resize sample_externals thin_image (0, 1024) =
        Inl ''ValueError: height and width must be > 0''
   \<and> analyze sample_externals ''thin'' =
        Inl (Uncaught ''ValueError: height and width must be > 0'')"
proof -
  have l: "load_image_from_bytes sample_externals ''thin'' = Inr thin_image"
    by (simp add: load_image_from_bytes_def sample_externals_def)
  have s: "img_size thin_image = (1, 3000)" by (simp add: thin_image_def)
  have z: "img_resize sample_externals thin_image (0, 1024) =
        Inl ''ValueError: height and width must be > 0''"
    by (simp add: sample_externals_def)
  have b: "(2048 :: nat) < 3000" by simp
  from thin_image_error_escapes[OF l s b z] l s z show ?thesis by simp
qed

section \<open>No reason is given twice\<close>

text \<open>
  Claim C10.  The reasons of a result hold no string twice.
\<close>

theorem reasons_distinct:
  assumes "analyze_image E img = Inr r"
  shows "distinct (reasons r) \<and> (\<forall>x. count_list (reasons r) x \<le> 1)"
proof -
  have g: "x \<notin> set (detect_generator_reasons (metadata r))" if "take 9 x \<noteq> ''Generator''" for x
    using that detect_generator_reasons_prefix by blast
  have g1: "''No EXIF metadata present'' \<notin> set (detect_generator_reasons (metadata r))"
    by (rule g) simp
  have g2: "''Low histogram entropy'' \<notin> set (detect_generator_reasons (metadata r))"
    by (rule g) simp
  have g3: "''Low high-frequency noise'' \<notin> set (detect_generator_reasons (metadata r))"
    by (rule g) simp
  have g4: "''Very low JPEG blockiness'' \<notin> set (detect_generator_reasons (metadata r))"
    by (rule g) simp
  have d: "distinct [''No EXIF metadata present'', ''Low histogram entropy'',
                     ''Low high-frequency noise'', ''Very low JPEG blockiness'']"
    by simp
  have "distinct (reasons r)"
    unfolding analyze_image_reasons[OF assms]
    by (rule distinct_optional_tail[OF distinct_detect_generator_reasons g1 g2 g3 g4 d])
  then show ?thesis using count_list_distinct[of "reasons r"] by simp
qed

theorem reasons_distinct_witness:
  "analyze_image sample_externals sample_image = Inr sample_result
   \<and> reasons sample_result = [''Generator tag detected: midjourney'', ''No EXIF metadata present'']
   \<and> distinct (reasons sample_result)"
  using reasons_distinct[OF sample_run] sample_run
  by (simp add: sample_result_def)

end
